theory Spec2Isabelle
  imports Complex_Main
begin

section \<open>Python floats\<close>

text \<open>
  A Python/NumPy float is modelled as a real number or NaN. The comparisons follow
  IEEE 754 as Python exposes it: every ordered comparison with NaN is False.
  Arithmetic is exact, except in \<open>np.mean\<close>, which rounds as doubles do (see
  \<open>fl64\<close>); the infinities are not modelled.
\<close>

datatype pyfloat = Val real | NaN

datatype py_error = IndexError | ValueError | ZeroDivisionError | TypeError

fun isnan :: "pyfloat \<Rightarrow> bool" where
  "isnan NaN = True"
| "isnan (Val x) = False"

fun fle :: "pyfloat \<Rightarrow> pyfloat \<Rightarrow> bool" where
  "fle (Val x) (Val y) = (x \<le> y)"
| "fle a b = False"

definition fge :: "pyfloat \<Rightarrow> pyfloat \<Rightarrow> bool" where
  "fge a b = fle b a"

fun fabs :: "pyfloat \<Rightarrow> pyfloat" where
  "fabs (Val x) = Val \<bar>x\<bar>"
| "fabs NaN = NaN"

section \<open>Clinical scoring (protocol\_system.py, CLINICAL\_SCORING)\<close>

datatype SeverityLevel = NORMAL | MILD | MODERATE | SEVERE

text \<open>The \<open>value\<close> attribute of the enum members.\<close>

fun severity_value :: "SeverityLevel \<Rightarrow> int" where
  "severity_value NORMAL = 0"
| "severity_value MILD = 1"
| "severity_value MODERATE = 2"
| "severity_value SEVERE = 3"

record ReferenceRange =
  normal_min :: real
  normal_max :: real
  mild_threshold :: real
  moderate_threshold :: real
  severe_threshold :: real
  range_unit :: string
  higher_is_worse :: bool

text \<open>\<open>ReferenceRange.classify\<close>.\<close>

definition classify :: "ReferenceRange \<Rightarrow> pyfloat \<Rightarrow> SeverityLevel" where
  "classify r v =
     (if isnan v then NORMAL
      else if higher_is_worse r then
        (if fle v (Val (normal_max r)) then NORMAL
         else if fle v (Val (mild_threshold r)) then MILD
         else if fle v (Val (moderate_threshold r)) then MODERATE
         else SEVERE)
      else
        (if fge v (Val (normal_min r)) then NORMAL
         else if fge v (Val (mild_threshold r)) then MILD
         else if fge v (Val (moderate_threshold r)) then MODERATE
         else SEVERE))"

text \<open>
  \<open>ReferenceRange.get_percentile_score\<close>. The interpolation branches are reached by
  numbers only (NaN returns first), so the arithmetic is on the real behind \<open>Val\<close>.
\<close>

fun get_percentile_score :: "ReferenceRange \<Rightarrow> pyfloat \<Rightarrow> real" where
  "get_percentile_score r NaN = 100"
| "get_percentile_score r (Val x) =
     (if higher_is_worse r then
        (if x \<le> normal_max r then 100
         else if x \<ge> severe_threshold r then 0
         else (let range_span = severe_threshold r - normal_max r
               in 100 * (1 - (x - normal_max r) / range_span)))
      else
        (if x \<ge> normal_min r then 100
         else if x \<le> severe_threshold r then 0
         else (let range_span = normal_min r - severe_threshold r
               in 100 * (x - severe_threshold r) / range_span)))"

record ScoredBiomarker =
  name :: string
  val :: pyfloat
  unit :: string
  severity :: SeverityLevel
  percentile_score :: real
  interpretation_text :: string

text \<open>\<open>str.lower\<close> on ASCII letters, and the substring test \<open>p in s\<close>.\<close>

definition lower_char :: "char \<Rightarrow> char" where
  "lower_char c =
     (let k = (of_char c :: nat)
      in if 65 \<le> k \<and> k \<le> 90 then char_of (k + 32) else c)"

definition lower :: "string \<Rightarrow> string" where
  "lower s = map lower_char s"

fun contains :: "string \<Rightarrow> string \<Rightarrow> bool" where
  "contains [] p = (p = [])"
| "contains (c # cs) p = (take (length p) (c # cs) = p \<or> contains cs p)"

text \<open>
  \<open>SeverityScorer.score_biomarker\<close>. \<open>refs\<close> is \<open>self.reference_ranges\<close>; \<open>interp\<close>
  stands for \<open>_interpret_biomarker\<close>, which only builds the interpretation text.
\<close>

definition score_biomarker ::
  "(string \<rightharpoonup> ReferenceRange) \<Rightarrow> (string \<Rightarrow> pyfloat \<Rightarrow> SeverityLevel \<Rightarrow> ReferenceRange \<Rightarrow> string)
     \<Rightarrow> string \<Rightarrow> pyfloat \<Rightarrow> ScoredBiomarker" where
  "score_biomarker refs interp nm v =
     (case refs nm of
        None \<Rightarrow>
          \<lparr>name = nm, val = v, unit = '''', severity = NORMAL, percentile_score = 75,
           interpretation_text = ''No reference range available for '' @ nm\<rparr>
      | Some ref \<Rightarrow>
          (let v' = (if contains (lower nm) ''asymmetry'' \<or> contains (lower nm) ''lag''
                     then fabs v else v);
               sev = classify ref v';
               pct = get_percentile_score ref v'
           in \<lparr>name = nm, val = v', unit = range_unit ref, severity = sev,
               percentile_score = pct, interpretation_text = interp nm v' sev ref\<rparr>))"

text \<open>
  \<open>SeverityScorer.score_biomarkers\<close>. The dictionary is its list of items in insertion
  order; a value is \<open>None\<close> or a float.
\<close>

fun score_biomarkers ::
  "(string \<rightharpoonup> ReferenceRange) \<Rightarrow> (string \<Rightarrow> pyfloat \<Rightarrow> SeverityLevel \<Rightarrow> ReferenceRange \<Rightarrow> string)
     \<Rightarrow> (string \<times> pyfloat option) list \<Rightarrow> ScoredBiomarker list" where
  "score_biomarkers refs interp [] = []"
| "score_biomarkers refs interp ((nm, v) # rest) =
     (case v of
        None \<Rightarrow> score_biomarkers refs interp rest
      | Some x \<Rightarrow>
          (if isnan x then score_biomarkers refs interp rest
           else score_biomarker refs interp nm x # score_biomarkers refs interp rest))"

text \<open>
  \<open>np.average(scores, weights=weights)\<close> on one-dimensional lists: the weighted mean,
  TypeError when the lengths differ, ZeroDivisionError when the weights sum to zero.
\<close>

definition np_average :: "real list \<Rightarrow> real list \<Rightarrow> py_error + real" where
  "np_average a w =
     (if length a \<noteq> length w then Inl TypeError
      else if sum_list w = 0 then Inl ZeroDivisionError
      else Inr (sum_list (map2 (*) a w) / sum_list w))"

text \<open>The loop of \<open>compute_domain_score\<close> appends one weight and one score per member.\<close>

fun domain_loop :: "ScoredBiomarker list \<Rightarrow> real list \<times> real list \<Rightarrow> real list \<times> real list" where
  "domain_loop [] (weights, scores) = (weights, scores)"
| "domain_loop (sb # rest) (weights, scores) =
     (let weight = 1.0 + real_of_int (3 - severity_value (severity sb)) * 0.5
      in domain_loop rest (weights @ [weight], scores @ [percentile_score sb]))"

definition compute_domain_score :: "ScoredBiomarker list \<Rightarrow> string list \<Rightarrow> py_error + real" where
  "compute_domain_score scored_biomarkers domain_biomarkers =
     (let relevant = filter (\<lambda>sb. name sb \<in> set domain_biomarkers) scored_biomarkers
      in if relevant = [] then Inr 100
         else (case domain_loop relevant ([], []) of
                 (weights, scores) \<Rightarrow> np_average scores weights))"

text \<open>\<open>SeverityScorer.classify_severity\<close>.\<close>

definition classify_severity :: "pyfloat \<Rightarrow> SeverityLevel" where
  "classify_severity score =
     (if fge score (Val 85) then NORMAL
      else if fge score (Val 65) then MILD
      else if fge score (Val 40) then MODERATE
      else SEVERE)"

text \<open>
  The module-level table \<open>CLINICAL_REFERENCE_RANGES\<close> (the default
  \<open>reference_ranges\<close>) and the tremor entry of \<open>ClinicalInterpreter.DOMAINS\<close>.
\<close>

definition mk_range :: "real \<Rightarrow> real \<Rightarrow> real \<Rightarrow> real \<Rightarrow> real \<Rightarrow> string \<Rightarrow> bool \<Rightarrow> ReferenceRange" where
  "mk_range nmin nmax mild moderate severe u hw =
     \<lparr>normal_min = nmin, normal_max = nmax, mild_threshold = mild,
      moderate_threshold = moderate, severe_threshold = severe,
      range_unit = u, higher_is_worse = hw\<rparr>"

definition CLINICAL_REFERENCE_RANGES :: "string \<rightharpoonup> ReferenceRange" where
  "CLINICAL_REFERENCE_RANGES = map_of
     [(''sparc'', mk_range (-2.5) (-1.5) (-3.0) (-4.0) (-5.0) '''' False),
      (''ldljv'', mk_range (-6.0) (-4.0) (-6.5) (-7.5) (-9.0) '''' False),
      (''ldlja'', mk_range (-6.0) (-4.0) (-6.5) (-7.5) (-9.0) '''' False),
      (''normalized_jerk'', mk_range 0.0 50.0 100.0 200.0 400.0 (''1/s'' @ [CHR 0xC2, CHR 0xB2]) True),
      (''tremor_frequency'', mk_range 0.0 3.0 5.0 7.0 10.0 ''Hz'' True),
      (''tremor_amplitude'', mk_range 0.0 0.005 0.015 0.03 0.05 ''normalized'' True),
      (''tremor_severity'', mk_range 0.0 0.1 0.3 0.5 0.8 '''' True),
      (''q_factor'', mk_range 0.0 2.0 5.0 10.0 20.0 '''' True),
      (''amplitude_decrement'', mk_range 0.8 1.2 0.6 0.4 0.2 ''ratio'' False),
      (''velocity_reduction'', mk_range 0.8 1.2 0.6 0.4 0.2 ''ratio'' False),
      (''slowness_score'', mk_range 0.0 0.5 1.0 2.0 4.0 ''s/cycle'' True),
      (''hesitation_index'', mk_range 0.0 0.2 0.5 1.0 2.0 ''s'' True),
      (''performance_degradation_rate'', mk_range (-0.1) 0.1 (-0.3) (-0.5) (-0.7) ''/normalized_time'' False),
      (''velocity_decay'', mk_range (-0.1) 0.1 (-0.3) (-0.5) (-0.7) ''/normalized_time'' False),
      (''rest_pause_frequency'', mk_range 0.0 0.2 0.5 1.0 2.0 ''pauses/s'' True),
      (''amplitude_asymmetry'', mk_range (-0.1) 0.1 0.2 0.4 0.6 '''' True),
      (''velocity_asymmetry'', mk_range (-0.1) 0.1 0.2 0.4 0.6 '''' True),
      (''coordination_lag'', mk_range (-0.05) 0.05 0.1 0.2 0.4 ''s'' True),
      (''rom_index_finger'', mk_range 0.8 1.5 0.6 0.4 0.2 ''normalized'' False),
      (''rom_thumb'', mk_range 0.6 1.2 0.4 0.3 0.15 ''normalized'' False)]"

definition DOMAINS_tremor :: "string list" where
  "DOMAINS_tremor = [''tremor_frequency'', ''tremor_amplitude'', ''tremor_severity'', ''q_factor'']"

section \<open>Hysteresis thresholding (data\_handling.py, THRESHOLDS\_DYNAMIC)\<close>

record HysteresisThreshold =
  high_threshold :: "real option"
  low_threshold :: "real option"
  quantile_high :: real
  quantile_low :: real

text \<open>The \<open>for\<close> loop of \<open>HysteresisThreshold.apply\<close>: one state per sample.\<close>

fun hysteresis_loop :: "real \<Rightarrow> real \<Rightarrow> real list \<Rightarrow> bool \<Rightarrow> bool list" where
  "hysteresis_loop high_thresh low_thresh [] current_state = []"
| "hysteresis_loop high_thresh low_thresh (x # xs) current_state =
     (let current_state' =
            (if current_state
             then (if x < low_thresh then False else current_state)
             else (if x > high_thresh then True else current_state))
      in current_state' # hysteresis_loop high_thresh low_thresh xs current_state')"

text \<open>
  \<open>HysteresisThreshold.apply\<close>. \<open>quantile\<close> stands for \<open>np.quantile\<close>, used only for a
  threshold left at \<open>None\<close>. The result is the state array and the two thresholds of the
  returned dictionary (high, low).
\<close>

definition HysteresisThreshold_apply ::
  "(real list \<Rightarrow> real \<Rightarrow> real) \<Rightarrow> HysteresisThreshold \<Rightarrow> real list \<Rightarrow> bool list \<times> (real \<times> real)" where
  "HysteresisThreshold_apply quantile h sig =
     (let high_thresh = (case high_threshold h of
                           None \<Rightarrow> quantile sig (quantile_high h) | Some t \<Rightarrow> t);
          low_thresh = (case low_threshold h of
                          None \<Rightarrow> quantile sig (quantile_low h) | Some t \<Rightarrow> t)
      in (hysteresis_loop high_thresh low_thresh sig False, (high_thresh, low_thresh)))"

section \<open>Event extraction (protocol\_system.py, EVENT\_DETECTOR)\<close>

record DetectedEvent =
  category :: string
  event_type :: string
  label :: string
  start_frame :: int
  end_frame :: int
  duration_frames :: int
  confidence :: real
  peak_confidence :: real
  confidence_std :: real
  confidence_min :: real

text \<open>The configuration fields of \<open>EventDetector\<close> that \<open>_extract_events\<close> reads.\<close>

record EventDetector =
  min_event_duration :: int
  merge_gap :: int
  confidence_threshold :: real

text \<open>\<open>EVENT_CATEGORIES\<close> of config.py.\<close>

definition EVENT_CATEGORIES :: "(string \<times> (string \<times> string) list) list" where
  "EVENT_CATEGORIES =
     [(''WRIST'', [(''Rotation-Out'', ''wrist_rotation_out''),
                   (''Rotation-In'', ''wrist_rotation_in'')]),
      (''FINGER'', [(''Thumb Tap'', ''thumb_tap''), (''Thumb Lift'', ''thumb_lift''),
                    (''Index Tap'', ''index_tap''), (''Index Lift'', ''index_lift''),
                    (''Middle Tap'', ''middle_tap''), (''Middle Lift'', ''middle_lift''),
                    (''Ring Tap'', ''ring_tap''), (''Ring Lift'', ''ring_lift''),
                    (''Pinky Tap'', ''pinky_tap''), (''Pinky Lift'', ''pinky_lift'')]),
      (''POSTURE'', [(''Pronation'', ''pronation''), (''Supination'', ''supination''),
                     (''Neutral'', ''neutral'')]),
      (''STATE'', [(''Aperture'', ''aperture''), (''Closure'', ''closure'')])]"

definition replace_space :: "string \<Rightarrow> string" where
  "replace_space s = map (\<lambda>c. if c = CHR '' '' then CHR ''_'' else c) s"

definition label_to_event_type :: "string \<Rightarrow> string \<Rightarrow> string" where
  "label_to_event_type cat lbl =
     (case map_of EVENT_CATEGORIES cat of
        Some category_map \<Rightarrow>
          (case map_of category_map lbl of
             Some t \<Rightarrow> t
           | None \<Rightarrow> replace_space (lower lbl))
      | None \<Rightarrow> replace_space (lower lbl))"

text \<open>
  Rounding to the nearest double: \<open>fl64 x\<close> is the multiple of
  \<open>2 ^ (e - 52)\<close> nearest to \<open>x\<close>, where \<open>2 ^ e \<le> |x| < 2 ^ (e + 1)\<close>, a tie
  going to the even multiple (53 significant bits; overflow and subnormal numbers are not
  modelled).
\<close>

definition round_half_even :: "real \<Rightarrow> int" where
  "round_half_even y =
     (let f = \<lfloor>y\<rfloor>; r = y - of_int f
      in if r < 1 / 2 then f else if r > 1 / 2 then f + 1 else if even f then f else f + 1)"

definition fl64 :: "real \<Rightarrow> real" where
  "fl64 x =
     (if x = 0 then 0
      else (let e = \<lfloor>log 2 \<bar>x\<bar>\<rfloor>; u = 2 powr (of_int e - 52)
            in sgn x * of_int (round_half_even (\<bar>x\<bar> / u)) * u))"

text \<open>
  \<open>np.mean\<close> of a non-empty float64 array: \<open>np.add.reduce\<close> starts from 0 and adds the
  elements one after another, rounding each sum, and the total divided by the count is
  rounded again. This is the order NumPy uses for fewer than eight elements; from eight
  on it adds in blocks, which can change the last bit of the result but none of the
  bounds proved of it. \<open>np.max\<close> and \<open>np.min\<close> return an element and do not round.
\<close>

definition np_sum :: "real list \<Rightarrow> real" where
  "np_sum xs = foldl (\<lambda>res x. fl64 (res + x)) 0 xs"

definition np_mean :: "real list \<Rightarrow> real" where
  "np_mean xs = fl64 (np_sum xs / real (length xs))"

definition np_max :: "real list \<Rightarrow> real" where
  "np_max xs = fold max (tl xs) (hd xs)"

definition np_min :: "real list \<Rightarrow> real" where
  "np_min xs = fold min (tl xs) (hd xs)"

text \<open>\<open>np.std\<close>, from the mean above.\<close>

definition np_std :: "real list \<Rightarrow> real" where
  "np_std xs = sqrt (np_mean (map (\<lambda>x. (x - np_mean xs)\<^sup>2) xs))"

text \<open>
  \<open>EventDetector._create_event\<close>. The two metadata entries are fields of the record.
  \<open>np.max\<close> of an empty list raises ValueError.
\<close>

definition create_event ::
  "string \<Rightarrow> string \<Rightarrow> int \<Rightarrow> int \<Rightarrow> real list \<Rightarrow> py_error + DetectedEvent" where
  "create_event cat lbl start_fr end_fr confidences =
     (if confidences = [] then Inl ValueError
      else Inr \<lparr>category = cat, event_type = label_to_event_type cat lbl, label = lbl,
                start_frame = start_fr, end_frame = end_fr,
                duration_frames = end_fr - start_fr + 1,
                confidence = np_mean confidences,
                peak_confidence = np_max confidences,
                confidence_std = np_std confidences,
                confidence_min = np_min confidences\<rparr>)"

text \<open>
  Indexing a sequence with a Python integer: a negative index counts from the end, an
  index out of range raises IndexError.
\<close>

definition py_get :: "'a list \<Rightarrow> int \<Rightarrow> py_error + 'a" where
  "py_get xs i =
     (let n = int (length xs); j = (if i < 0 then n + i else i)
      in if 0 \<le> j \<and> j < n then Inr (xs ! nat j) else Inl IndexError)"

definition ebind :: "py_error + 'a \<Rightarrow> ('a \<Rightarrow> py_error + 'b) \<Rightarrow> py_error + 'b" where
  "ebind m f = (case m of Inl e \<Rightarrow> Inl e | Inr x \<Rightarrow> f x)"

text \<open>
  The local variables of \<open>_extract_events\<close>. \<open>current_start\<close> is \<open>None\<close> until the first
  event starts and keeps its last value after an event closes.
\<close>

record extract_state =
  events :: "DetectedEvent list"
  current_label :: "string option"
  current_start :: "nat option"
  current_confidences :: "real list"

text \<open>
  Closing the current event at loop index \<open>i\<close>: the event runs from
  \<open>frame_indices[current_start]\<close> to \<open>frame_indices[i - 1]\<close>. Subtracting from a
  \<open>current_start\<close> that is still \<open>None\<close> would be a TypeError.
\<close>

definition close_event ::
  "string \<Rightarrow> int list \<Rightarrow> extract_state \<Rightarrow> string \<Rightarrow> int \<Rightarrow> py_error + DetectedEvent" where
  "close_event cat frame_indices st cl last_index =
     (case current_start st of
        None \<Rightarrow> Inl TypeError
      | Some cs \<Rightarrow>
          ebind (py_get frame_indices (int cs)) (\<lambda>start_fr.
          ebind (py_get frame_indices last_index) (\<lambda>end_fr.
            create_event cat cl start_fr end_fr (current_confidences st))))"

text \<open>One iteration of the \<open>for i in range(n)\<close> loop.\<close>

definition extract_step ::
  "EventDetector \<Rightarrow> string \<Rightarrow> string list \<Rightarrow> real list \<Rightarrow> int list \<Rightarrow> nat
     \<Rightarrow> extract_state \<Rightarrow> py_error + extract_state" where
  "extract_step self cat labels confidences frame_indices i st =
     ebind (py_get labels (int i)) (\<lambda>lbl.
     ebind (py_get confidences (int i)) (\<lambda>conf.
     ebind (py_get frame_indices (int i)) (\<lambda>frame.
       if lbl \<in> set [''None'', ''none'', ''NONE''] \<or> conf < confidence_threshold self then
         (case current_label st of
            None \<Rightarrow> Inr st
          | Some cl \<Rightarrow>
              (case current_start st of
                 None \<Rightarrow> Inl TypeError
               | Some cs \<Rightarrow>
                   if int i - int cs \<le> merge_gap self then Inr st
                   else ebind (close_event cat frame_indices st cl (int i - 1)) (\<lambda>ev.
                          Inr (st\<lparr>events := events st @ [ev], current_label := None,
                                  current_confidences := []\<rparr>))))
       else
         (case current_label st of
            None \<Rightarrow>
              Inr (st\<lparr>current_label := Some lbl, current_start := Some i,
                      current_confidences := [conf]\<rparr>)
          | Some cl \<Rightarrow>
              if lbl = cl then
                Inr (st\<lparr>current_confidences := current_confidences st @ [conf]\<rparr>)
              else ebind (close_event cat frame_indices st cl (int i - 1)) (\<lambda>ev.
                     Inr (st\<lparr>events := events st @ [ev], current_label := Some lbl,
                             current_start := Some i, current_confidences := [conf]\<rparr>))))))"

fun extract_loop ::
  "EventDetector \<Rightarrow> string \<Rightarrow> string list \<Rightarrow> real list \<Rightarrow> int list \<Rightarrow> nat list
     \<Rightarrow> extract_state \<Rightarrow> py_error + extract_state" where
  "extract_loop self cat labels confidences frame_indices [] st = Inr st"
| "extract_loop self cat labels confidences frame_indices (i # rest) st =
     ebind (extract_step self cat labels confidences frame_indices i st)
       (extract_loop self cat labels confidences frame_indices rest)"

text \<open>\<open>EventDetector._extract_events\<close>.\<close>

definition extract_events ::
  "EventDetector \<Rightarrow> string \<Rightarrow> string list \<Rightarrow> real list \<Rightarrow> int list
     \<Rightarrow> py_error + DetectedEvent list" where
  "extract_events self cat labels confidences frame_indices =
     (let n = length labels
      in if n = 0 then Inr []
         else
           ebind (extract_loop self cat labels confidences frame_indices [0..<n]
                    \<lparr>events = [], current_label = None, current_start = None,
                     current_confidences = []\<rparr>) (\<lambda>st.
           ebind (case current_label st of
                    None \<Rightarrow> Inr (events st)
                  | Some cl \<Rightarrow>
                      ebind (close_event cat frame_indices st cl (int n - 1)) (\<lambda>ev.
                        Inr (events st @ [ev]))) (\<lambda>evs.
             Inr (filter (\<lambda>e. duration_frames e \<ge> min_event_duration self) evs))))"

text \<open>\<open>np.arange(n)\<close>, the default frame indices of \<open>detect_events\<close>.\<close>

definition arange :: "nat \<Rightarrow> int list" where
  "arange n = map int [0..<n]"




section \<open>Biomarker calculator (protocol\_system.py, BIOMARKERS)\<close>

text \<open>
  A NumPy array of one or two dimensions; a two-dimensional array is its list of rows.
  \<open>alen\<close> is Python's \<open>len\<close> (the first axis), \<open>to_1d\<close> the step
  \<open>if a.ndim > 1: a = np.linalg.norm(a, axis=-1)\<close>.
\<close>

datatype ndarray = Arr1 "real list" | Arr2 "real list list"

fun alen :: "ndarray \<Rightarrow> nat" where
  "alen (Arr1 xs) = length xs"
| "alen (Arr2 rows) = length rows"

definition linalg_norm :: "real list \<Rightarrow> real" where
  "linalg_norm r = sqrt (sum_list (map (\<lambda>x. x\<^sup>2) r))"

fun to_1d :: "ndarray \<Rightarrow> real list" where
  "to_1d (Arr1 xs) = xs"
| "to_1d (Arr2 rows) = map linalg_norm rows"

record BiomarkerCalculator =
  fs :: real
  movement_threshold :: real
  min_movement_duration :: real

text \<open>\<open>self._dt = 1.0 / fs\<close>.\<close>

definition dt :: "BiomarkerCalculator \<Rightarrow> real" where
  "dt self = 1 / fs self"

text \<open>Python's \<open>int(x)\<close> on a float: truncation towards zero.\<close>

definition py_int :: "real \<Rightarrow> int" where
  "py_int x = (if 0 \<le> x then \<lfloor>x\<rfloor> else \<lceil>x\<rceil>)"

text \<open>
  NumPy helpers. \<open>np_diff\<close> is \<open>np.diff\<close>; \<open>np_gradient\<close> is \<open>np.gradient(f, h)\<close>
  (central differences inside, one-sided at both ends; ValueError below two samples);
  \<open>trapezoid\<close> is the trapezoidal rule with spacing \<open>dx\<close>; \<open>select\<close> is indexing with a
  boolean mask of the same length; \<open>searchsorted\<close> is \<open>np.searchsorted\<close> (side left) on
  an ascending array: the number of entries below the value.
\<close>

definition np_diff :: "real list \<Rightarrow> real list" where
  "np_diff xs = map2 (\<lambda>a b. b - a) xs (tl xs)"

definition np_gradient :: "real list \<Rightarrow> real \<Rightarrow> py_error + real list" where
  "np_gradient f h =
     (let n = length f
      in if n < 2 then Inl ValueError
         else Inr (map (\<lambda>i. if i = 0 then (f ! 1 - f ! 0) / h
                              else if i = n - 1 then (f ! (n - 1) - f ! (n - 2)) / h
                              else (f ! (i + 1) - f ! (i - 1)) / (2 * h)) [0..<n]))"

definition trapezoid :: "real list \<Rightarrow> real \<Rightarrow> real" where
  "trapezoid y dx = dx * sum_list (map2 (\<lambda>a b. (a + b) / 2) y (tl y))"

definition np_ptp :: "real list \<Rightarrow> real" where
  "np_ptp xs = np_max xs - np_min xs"

definition select :: "'a list \<Rightarrow> bool list \<Rightarrow> 'a list" where
  "select xs msk = map fst (filter snd (zip xs msk))"

definition searchsorted :: "real list \<Rightarrow> real \<Rightarrow> nat" where
  "searchsorted a v = length (takeWhile (\<lambda>x. x < v) a)"

text \<open>
  \<open>fft.rfftfreq(n, d)\<close> and \<open>np.abs(fft.rfft(x))\<close>: the magnitudes of the discrete
  Fourier transform at the frequencies 0 to \<open>n // 2\<close>.
\<close>

definition rfftfreq :: "nat \<Rightarrow> real \<Rightarrow> real list" where
  "rfftfreq n d = map (\<lambda>k. real k * (1 / (real n * d))) [0..<n div 2 + 1]"

definition rfft_abs :: "real list \<Rightarrow> real list" where
  "rfft_abs x =
     (let n = length x
      in map (\<lambda>k. cmod (\<Sum>j\<leftarrow>[0..<n]. complex_of_real (x ! j)
                                * cis (- 2 * pi * real j * real k / real n)))
           [0..<n div 2 + 1])"

text \<open>\<open>BiomarkerCalculator.compute_sparc\<close>.\<close>

definition compute_sparc :: "BiomarkerCalculator \<Rightarrow> ndarray \<Rightarrow> real \<Rightarrow> real \<Rightarrow> pyfloat" where
  "compute_sparc self velocity freq_cutoff amplitude_threshold =
     (if alen velocity < 4 then NaN
      else
        (let v = to_1d velocity;
             n = length v;
             freq = rfftfreq n (dt self);
             spectrum = rfft_abs v;
             spectrum_norm = map (\<lambda>s. s / (np_max spectrum + 1 / 10 ^ 10)) spectrum;
             cutoff_idx = searchsorted freq freq_cutoff
         in if cutoff_idx < 2 then NaN
            else
              (let above = map (\<lambda>s. s > amplitude_threshold) (take cutoff_idx spectrum_norm);
                   valid_mask = (if length (filter id above) < 2
                                 then replicate cutoff_idx True else above);
                   freq_valid = select (take cutoff_idx freq) valid_mask;
                   spectrum_valid = select (take cutoff_idx spectrum_norm) valid_mask
               in if length freq_valid < 2 then NaN
                  else
                    (let freq_norm = map (\<lambda>f. f / freq_cutoff) freq_valid;
                         df = np_diff freq_norm;
                         ds = np_diff spectrum_valid;
                         arc_length = sum_list (map2 (\<lambda>a b. sqrt (a\<^sup>2 + b\<^sup>2)) df ds)
                     in Val (- arc_length)))))"

text \<open>
  \<open>compute_ldljv\<close>, \<open>compute_ldlja\<close> and \<open>compute_normalized_jerk\<close>. The optional
  arguments are \<open>None\<close> or a number.
\<close>

definition dimensionless_jerk_log ::
  "BiomarkerCalculator \<Rightarrow> real list \<Rightarrow> real \<Rightarrow> real \<Rightarrow> py_error + pyfloat" where
  "dimensionless_jerk_log self jerk movement_duration scale =
     (let jerk_squared_integral = trapezoid (map (\<lambda>j. j\<^sup>2) jerk) (dt self);
          dimensionless_jerk =
            sqrt ((movement_duration ^ 5 / (scale\<^sup>2 + 1 / 10 ^ 10)) * jerk_squared_integral)
      in Inr (Val (- ln (dimensionless_jerk + 1 / 10 ^ 10))))"

definition compute_ldljv ::
  "BiomarkerCalculator \<Rightarrow> ndarray \<Rightarrow> real option \<Rightarrow> real option \<Rightarrow> py_error + pyfloat" where
  "compute_ldljv self velocity movement_duration path_length =
     (if alen velocity < 4 then Inr NaN
      else
        (let v = to_1d velocity;
             duration = (case movement_duration of
                           None \<Rightarrow> real (length v) * dt self | Some d \<Rightarrow> d);
             path = (case path_length of
                       None \<Rightarrow> sum_list (map abs v) * dt self | Some l \<Rightarrow> l)
         in if duration < 1 / 10 ^ 6 \<or> path < 1 / 10 ^ 6 then Inr NaN
            else
              ebind (np_gradient v (dt self)) (\<lambda>acceleration.
              ebind (np_gradient acceleration (dt self)) (\<lambda>jerk.
                dimensionless_jerk_log self jerk duration path))))"

definition compute_ldlja ::
  "BiomarkerCalculator \<Rightarrow> ndarray \<Rightarrow> real option \<Rightarrow> real option \<Rightarrow> py_error + pyfloat" where
  "compute_ldlja self position movement_duration amplitude =
     (if alen position < 4 then Inr NaN
      else
        (let p = to_1d position;
             duration = (case movement_duration of
                           None \<Rightarrow> real (length p) * dt self | Some d \<Rightarrow> d);
             amp = (case amplitude of None \<Rightarrow> np_ptp p | Some a \<Rightarrow> a)
         in if duration < 1 / 10 ^ 6 \<or> amp < 1 / 10 ^ 6 then Inr NaN
            else
              ebind (np_gradient p (dt self)) (\<lambda>velocity.
              ebind (np_gradient velocity (dt self)) (\<lambda>acceleration.
              ebind (np_gradient acceleration (dt self)) (\<lambda>jerk.
                dimensionless_jerk_log self jerk duration amp)))))"

definition compute_normalized_jerk :: "BiomarkerCalculator \<Rightarrow> ndarray \<Rightarrow> py_error + pyfloat" where
  "compute_normalized_jerk self velocity =
     (if alen velocity < 4 then Inr NaN
      else
        (let v = to_1d velocity
         in ebind (np_gradient v (dt self)) (\<lambda>acceleration.
            ebind (np_gradient acceleration (dt self)) (\<lambda>jerk.
              (let rms_jerk = sqrt (np_mean (map (\<lambda>j. j\<^sup>2) jerk));
                   rms_velocity = sqrt (np_mean (map (\<lambda>x. x\<^sup>2) v))
               in if rms_velocity < 1 / 10 ^ 10 then Inr NaN
                  else Inr (Val (rms_jerk / rms_velocity)))))))"

text \<open>
  \<open>compute_amplitude_decrement\<close> and \<open>compute_velocity_reduction\<close>: the ratio of the
  mean of the last \<open>late_n\<close> cycles to the mean of the first \<open>early_n\<close>.
  \<open>a[:k]\<close> is \<open>take k\<close>; \<open>a[-k:]\<close> with \<open>k \<ge> 1\<close> is the last \<open>k\<close> entries, all of
  them when \<open>k\<close> exceeds the length.
\<close>

definition late_early_ratio :: "real list \<Rightarrow> real \<Rightarrow> real \<Rightarrow> pyfloat" where
  "late_early_ratio values early_fraction late_fraction =
     (if length values < 3 then NaN
      else
        (let n = length values;
             early_n = max 1 (py_int (real n * early_fraction));
             late_n = max 1 (py_int (real n * late_fraction));
             early_mean = np_mean (take (nat early_n) values);
             late_mean = np_mean (drop (nat (int n - late_n)) values)
         in if early_mean < 1 / 10 ^ 10 then NaN
            else Val (late_mean / early_mean)))"

definition compute_amplitude_decrement :: "real list \<Rightarrow> real \<Rightarrow> real \<Rightarrow> pyfloat" where
  "compute_amplitude_decrement amplitudes early_fraction late_fraction =
     late_early_ratio amplitudes early_fraction late_fraction"

definition compute_velocity_reduction :: "real list \<Rightarrow> real \<Rightarrow> real \<Rightarrow> pyfloat" where
  "compute_velocity_reduction peak_velocities early_fraction late_fraction =
     late_early_ratio peak_velocities early_fraction late_fraction"

text \<open>\<open>compute_hesitation_index\<close>: the time of the first sample above the threshold.\<close>

definition compute_hesitation_index :: "BiomarkerCalculator \<Rightarrow> ndarray \<Rightarrow> real \<Rightarrow> pyfloat" where
  "compute_hesitation_index self velocity threshold_fraction =
     (if alen velocity < 2 then NaN
      else
        (let v = to_1d velocity;
             max_vel = np_max (map abs v);
             threshold = max_vel * threshold_fraction;
             above_threshold = filter (\<lambda>i. \<bar>v ! i\<bar> > threshold) [0..<length v]
         in if length above_threshold = 0 then Val (real (length v) * dt self)
            else Val (real (above_threshold ! 0) * dt self)))"

text \<open>
  \<open>detect_movement_blocks\<close>: the number of pauses between movements and their
  durations.
\<close>

definition detect_movement_blocks ::
  "BiomarkerCalculator \<Rightarrow> ndarray \<Rightarrow> real \<Rightarrow> int \<times> real list" where
  "detect_movement_blocks self velocity min_pause_duration =
     (if alen velocity < 2 then (0, [])
      else
        (let v = to_1d velocity;
             is_moving = map (\<lambda>x. if \<bar>x\<bar> > movement_threshold self then (1::int) else 0) v;
             transitions = map2 (\<lambda>a b. b - a) is_moving (tl is_moving);
             movement_starts = map (\<lambda>i. int i + 1)
                                 (filter (\<lambda>i. transitions ! i = 1) [0..<length transitions]);
             movement_ends0 = map (\<lambda>i. int i + 1)
                                (filter (\<lambda>i. transitions ! i = - 1) [0..<length transitions])
         in if length movement_starts = 0 \<or> length movement_ends0 = 0 then (0, [])
            else
              (let movement_ends = (if movement_ends0 ! 0 < movement_starts ! 0
                                    then tl movement_ends0 else movement_ends0);
                   n_segments = min (length movement_starts) (length movement_ends);
                   min_samples = py_int (min_pause_duration * fs self);
                   intervals =
                     map (\<lambda>i. real_of_int (movement_starts ! (i + 1) - movement_ends ! i) * dt self)
                       (filter (\<lambda>i. movement_starts ! (i + 1) - movement_ends ! i \<ge> min_samples)
                          [0..<n_segments - 1])
               in (int (length intervals), intervals))))"

text \<open>
  The remaining scalar metrics call SciPy or \<open>np.polyfit\<close>. Those calls are parameters
  of the model, each returning its value or the exception it raises: \<open>polyfit\<close> is
  \<open>np.polyfit(x, y, 1)\<close> (slope and intercept), \<open>welch\<close> is
  \<open>signal.welch(x, fs=fs, nperseg=k)\<close> and \<open>coherence\<close> is
  \<open>signal.coherence(x, y, fs=fs, nperseg=k)\<close> (frequencies and values),
  \<open>band_filtfilt\<close> is the second-order Butterworth band-pass design followed by
  \<open>signal.filtfilt\<close>. \<open>correlate\<close> is \<open>signal.correlate(a, b, mode='full')\<close> and
  \<open>hilbert_abs\<close> the magnitude of \<open>signal.hilbert\<close>. Everything around the calls is
  the source's.
\<close>

definition np_argmax :: "real list \<Rightarrow> nat" where
  "np_argmax xs = length (takeWhile (\<lambda>x. x \<noteq> np_max xs) xs)"

definition band_mask :: "real list \<Rightarrow> real \<times> real \<Rightarrow> bool list" where
  "band_mask f freq_band = map (\<lambda>x. x \<ge> fst freq_band \<and> x \<le> snd freq_band) f"

fun emap :: "('a \<Rightarrow> py_error + 'b) \<Rightarrow> 'a list \<Rightarrow> py_error + 'b list" where
  "emap g [] = Inr []"
| "emap g (x # xs) = ebind (g x) (\<lambda>y. ebind (emap g xs) (\<lambda>ys. Inr (y # ys)))"

definition compute_performance_degradation ::
  "(real list \<Rightarrow> real list \<Rightarrow> py_error + real \<times> real) \<Rightarrow> real list \<Rightarrow> real list option
     \<Rightarrow> py_error + pyfloat" where
  "compute_performance_degradation polyfit metric_values timestamps =
     (if length metric_values < 3 then Inr NaN
      else
        (let ts = (case timestamps of
                     None \<Rightarrow> map real [0..<length metric_values] | Some t \<Rightarrow> t)
         in ebind (py_get ts 0) (\<lambda>t_first.
            ebind (py_get ts (- 1)) (\<lambda>t_last.
              (let t_norm = map (\<lambda>t. (t - t_first) / (t_last - t_first + 1 / 10 ^ 10)) ts
               in ebind (polyfit t_norm metric_values) (\<lambda>(slope, intercept).
                    (let initial_value = (if metric_values ! 0 \<noteq> 0 then metric_values ! 0 else 1)
                     in Inr (Val (slope / initial_value)))))))))"

definition compute_consistency_decline ::
  "(real list \<Rightarrow> real list \<Rightarrow> py_error + real \<times> real) \<Rightarrow> real list \<Rightarrow> nat
     \<Rightarrow> py_error + pyfloat" where
  "compute_consistency_decline polyfit metric_values window_size =
     (if length metric_values < window_size * 2 then Inr NaN
      else
        (let n_windows = length metric_values - window_size + 1;
             local_cv = map (\<lambda>i. (let window = take window_size (drop i metric_values);
                                       mean_val = np_mean window
                                   in if mean_val > 1 / 10 ^ 10 then np_std window / mean_val else 0))
                          [0..<n_windows]
         in ebind (polyfit (map real [0..<n_windows]) local_cv) (\<lambda>(slope, intercept).
              Inr (Val slope))))"

definition compute_coordination_lag ::
  "(real list \<Rightarrow> real list \<Rightarrow> real list) \<Rightarrow> BiomarkerCalculator \<Rightarrow> real list \<Rightarrow> real list
     \<Rightarrow> int option \<Rightarrow> pyfloat" where
  "compute_coordination_lag correlate self left_signal right_signal max_lag_samples =
     (if length left_signal < 10 \<or> length right_signal < 10 then NaN
      else
        (let max_lag = (case max_lag_samples of
                          None \<Rightarrow> min (int (length left_signal) div 4) (py_int (0.5 * fs self))
                        | Some m \<Rightarrow> m);
             correlation = correlate right_signal left_signal;
             lags = map (\<lambda>k. int k - (int (length left_signal) - 1))
                      [0..<length right_signal + length left_signal - 1];
             valid = filter (\<lambda>i. \<bar>lags ! i\<bar> \<le> max_lag) [0..<length lags];
             peak_idx = (if valid = [] then 0
                         else valid ! np_argmax (map (\<lambda>i. correlation ! i) valid));
             lag_samples = lags ! peak_idx
         in Val (real_of_int lag_samples * dt self)))"

definition compute_phase_coherence ::
  "(real list \<Rightarrow> real list \<Rightarrow> real \<Rightarrow> nat \<Rightarrow> py_error + real list \<times> real list)
     \<Rightarrow> BiomarkerCalculator \<Rightarrow> real list \<Rightarrow> real list \<Rightarrow> real \<times> real
     \<Rightarrow> py_error + pyfloat" where
  "compute_phase_coherence coherence self left_signal right_signal freq_band =
     (if length left_signal < 10 \<or> length right_signal < 10 then Inr NaN
      else
        (let min_len = min (length left_signal) (length right_signal)
         in ebind (coherence (take min_len left_signal) (take min_len right_signal)
                     (fs self) (min 256 (min_len div 2))) (\<lambda>(f, coh).
              (let msk = band_mask f freq_band
               in if length (filter id msk) = 0 then Inr NaN
                  else Inr (Val (np_mean (select coh msk)))))))"

definition compute_q_factor ::
  "(real list \<Rightarrow> real \<Rightarrow> nat \<Rightarrow> py_error + real list \<times> real list) \<Rightarrow> BiomarkerCalculator
     \<Rightarrow> real list \<Rightarrow> real \<times> real \<Rightarrow> py_error + pyfloat" where
  "compute_q_factor welch self signal_data freq_band =
     (if length signal_data < 10 then Inr NaN
      else
        ebind (welch signal_data (fs self) (min 256 (length signal_data div 2))) (\<lambda>(f, psd).
          (let msk = band_mask f freq_band
           in if length (filter id msk) < 3 then Inr NaN
              else
                (let band_f = select f msk;
                     band_psd = select psd msk;
                     peak_idx = np_argmax band_psd;
                     peak_freq = band_f ! peak_idx;
                     peak_power = band_psd ! peak_idx;
                     half_power = peak_power / 2;
                     above_indices = filter (\<lambda>i. band_psd ! i \<ge> half_power) [0..<length band_psd]
                 in if length above_indices < 2 then Inr NaN
                    else
                      (let bandwidth = band_f ! (last above_indices) - band_f ! (above_indices ! 0)
                       in if bandwidth < 1 / 10 ^ 6 then Inr NaN
                          else Inr (Val (peak_freq / bandwidth)))))))"

text \<open>
  The window loop shared by \<open>compute_tremor_stability\<close> and
  \<open>compute_frequency_drift\<close>: for each window with a bin in the band, its start sample
  and its dominant frequency.
\<close>

definition window_dominant_freqs ::
  "(real list \<Rightarrow> real \<Rightarrow> nat \<Rightarrow> py_error + real list \<times> real list) \<Rightarrow> BiomarkerCalculator
     \<Rightarrow> real list \<Rightarrow> int \<Rightarrow> real \<times> real \<Rightarrow> py_error + (nat \<times> real) list" where
  "window_dominant_freqs welch self signal_data window_samples freq_band =
     (let n_windows = int (length signal_data) div window_samples
      in ebind (emap (\<lambda>i.
           (let start = i * nat window_samples;
                window = take (nat window_samples) (drop start signal_data)
            in ebind (welch window (fs self) (min 64 (length window div 2))) (\<lambda>(f, psd).
                 (let msk = band_mask f freq_band
                  in if length (filter id msk) > 0
                     then Inr [(start, select f msk ! np_argmax (select psd msk))]
                     else Inr []))))
         [0..<nat n_windows]) (\<lambda>found. Inr (concat found)))"

definition compute_tremor_stability ::
  "(real list \<Rightarrow> real \<Rightarrow> nat \<Rightarrow> py_error + real list \<times> real list) \<Rightarrow> BiomarkerCalculator
     \<Rightarrow> real list \<Rightarrow> real \<Rightarrow> real \<times> real \<Rightarrow> py_error + pyfloat" where
  "compute_tremor_stability welch self signal_data window_duration freq_band =
     (let window_samples = py_int (window_duration * fs self)
      in if int (length signal_data) < window_samples * 2 then Inr NaN
         else if window_samples = 0 then Inl ZeroDivisionError
         else
           ebind (window_dominant_freqs welch self signal_data window_samples freq_band) (\<lambda>found.
             (let dominant_freqs = map snd found
              in if length dominant_freqs < 2 then Inr NaN
                 else
                   (let cv = np_std dominant_freqs / (np_mean dominant_freqs + 1 / 10 ^ 10)
                    in Inr (Val (max 0 (min 1 (1 - cv))))))))"

definition compute_amplitude_variability ::
  "(real \<Rightarrow> real \<Rightarrow> real list \<Rightarrow> py_error + real list) \<Rightarrow> (real list \<Rightarrow> real list)
     \<Rightarrow> BiomarkerCalculator \<Rightarrow> real list \<Rightarrow> real \<times> real \<Rightarrow> pyfloat" where
  "compute_amplitude_variability band_filtfilt hilbert_abs self signal_data freq_band =
     (if length signal_data < 10 then NaN
      else
        (let nyq = fs self / 2;
             low = fst freq_band / nyq;
             high = min (snd freq_band / nyq) 0.99
         in if low \<ge> high then NaN
            else
              (case band_filtfilt low high signal_data of
                 Inl e \<Rightarrow> NaN
               | Inr filtered \<Rightarrow>
                   (let envelope = hilbert_abs filtered;
                        mean_amp = np_mean envelope
                    in if mean_amp < 1 / 10 ^ 10 then NaN
                       else Val (np_std envelope / mean_amp)))))"

definition compute_frequency_drift ::
  "(real list \<Rightarrow> real \<Rightarrow> nat \<Rightarrow> py_error + real list \<times> real list)
     \<Rightarrow> (real list \<Rightarrow> real list \<Rightarrow> py_error + real \<times> real) \<Rightarrow> BiomarkerCalculator \<Rightarrow> real list
     \<Rightarrow> real \<Rightarrow> real \<times> real \<Rightarrow> py_error + pyfloat" where
  "compute_frequency_drift welch polyfit self signal_data window_duration freq_band =
     (let window_samples = py_int (window_duration * fs self)
      in if int (length signal_data) < window_samples * 3 then Inr NaN
         else if window_samples = 0 then Inl ZeroDivisionError
         else
           ebind (window_dominant_freqs welch self signal_data window_samples freq_band) (\<lambda>found.
             (let dominant_freqs = map snd found;
                  timestamps = map (\<lambda>(start, d).
                                 (real start + (real start + real_of_int window_samples)) / 2 * dt self)
                                 found
              in if length dominant_freqs < 3 then Inr NaN
                 else ebind (polyfit timestamps dominant_freqs) (\<lambda>(slope, intercept).
                        Inr (Val slope)))))"

section \<open>Filters (data\_handling.py, FILTERS and OUTLIER\_DETECTION)\<close>

text \<open>
  The coefficients \<open>self.b\<close> and \<open>self.a\<close> that \<open>_design_filter\<close> obtains from SciPy's
  design routines. The five frequency-domain classes have the same \<open>apply\<close>;
  \<open>filtfilt\<close> stands for \<open>signal.filtfilt(b, a, data, axis=0)\<close>, which may raise.
\<close>

record iir_filter =
  coef_b :: "real list"
  coef_a :: "real list"

definition ButterworthFilter_apply ::
  "(real list \<Rightarrow> real list \<Rightarrow> ndarray \<Rightarrow> py_error + ndarray) \<Rightarrow> iir_filter \<Rightarrow> ndarray
     \<Rightarrow> py_error + ndarray" where
  "ButterworthFilter_apply filtfilt self data =
     (if alen data < 3 * max (length (coef_a self)) (length (coef_b self)) then Inr data
      else filtfilt (coef_b self) (coef_a self) data)"

definition ChebyshevFilter_apply ::
  "(real list \<Rightarrow> real list \<Rightarrow> ndarray \<Rightarrow> py_error + ndarray) \<Rightarrow> iir_filter \<Rightarrow> ndarray
     \<Rightarrow> py_error + ndarray" where
  "ChebyshevFilter_apply filtfilt self data =
     (if alen data < 3 * max (length (coef_a self)) (length (coef_b self)) then Inr data
      else filtfilt (coef_b self) (coef_a self) data)"

definition BesselFilter_apply ::
  "(real list \<Rightarrow> real list \<Rightarrow> ndarray \<Rightarrow> py_error + ndarray) \<Rightarrow> iir_filter \<Rightarrow> ndarray
     \<Rightarrow> py_error + ndarray" where
  "BesselFilter_apply filtfilt self data =
     (if alen data < 3 * max (length (coef_a self)) (length (coef_b self)) then Inr data
      else filtfilt (coef_b self) (coef_a self) data)"

definition EllipticFilter_apply ::
  "(real list \<Rightarrow> real list \<Rightarrow> ndarray \<Rightarrow> py_error + ndarray) \<Rightarrow> iir_filter \<Rightarrow> ndarray
     \<Rightarrow> py_error + ndarray" where
  "EllipticFilter_apply filtfilt self data =
     (if alen data < 3 * max (length (coef_a self)) (length (coef_b self)) then Inr data
      else filtfilt (coef_b self) (coef_a self) data)"

definition BandpassFilter_apply ::
  "(real list \<Rightarrow> real list \<Rightarrow> ndarray \<Rightarrow> py_error + ndarray) \<Rightarrow> iir_filter \<Rightarrow> ndarray
     \<Rightarrow> py_error + ndarray" where
  "BandpassFilter_apply filtfilt self data =
     (if alen data < 3 * max (length (coef_a self)) (length (coef_b self)) then Inr data
      else filtfilt (coef_b self) (coef_a self) data)"

text \<open>
  \<open>MovingAverageFilter.apply\<close>. \<open>np.ones(window)\<close> raises ValueError for a negative
  window and \<open>np.convolve\<close> for an empty kernel. \<open>np_convolve_same\<close> is
  \<open>np.convolve(x, k, mode='same')\<close> for a kernel no longer than the data;
  \<open>convolve1d\<close> stands for \<open>ndimage.convolve1d(data, kernel, axis=0, mode='reflect')\<close>.
\<close>

definition np_convolve_same :: "real list \<Rightarrow> real list \<Rightarrow> real list" where
  "np_convolve_same x k =
     (let full = map (\<lambda>m. \<Sum>j\<leftarrow>[0..<length x].
                          if j \<le> m \<and> m - j < length k then x ! j * k ! (m - j) else 0)
                   [0..<length x + length k - 1]
      in take (length x) (drop ((length k - 1) div 2) full))"

definition MovingAverageFilter_apply ::
  "(ndarray \<Rightarrow> real list \<Rightarrow> py_error + ndarray) \<Rightarrow> int \<Rightarrow> ndarray \<Rightarrow> py_error + ndarray" where
  "MovingAverageFilter_apply convolve1d window data =
     (if int (alen data) < window then Inr data
      else if window \<le> 0 then Inl ValueError
      else
        (let kernel = replicate (nat window) (1 / real_of_int window)
         in case data of
              Arr1 xs \<Rightarrow> Inr (Arr1 (np_convolve_same xs kernel))
            | Arr2 rows \<Rightarrow> convolve1d data kernel))"

text \<open>
  \<open>SavitzkyGolayFilter.apply\<close>; \<open>savgol_filter\<close> stands for
  \<open>signal.savgol_filter(data, window_length, polyorder, axis=0)\<close>.
\<close>

definition SavitzkyGolayFilter_apply ::
  "(ndarray \<Rightarrow> int \<Rightarrow> int \<Rightarrow> py_error + ndarray) \<Rightarrow> int \<Rightarrow> int \<Rightarrow> ndarray
     \<Rightarrow> py_error + ndarray" where
  "SavitzkyGolayFilter_apply savgol_filter window_length polyorder data =
     (if int (alen data) < window_length then Inr data
      else savgol_filter data window_length polyorder)"

text \<open>
  \<open>LMSAdaptiveFilter._filter_1d\<close>: the weights \<open>w\<close> are updated sample by sample and
  the first \<open>M\<close> outputs are the inputs. \<open>np.zeros(M)\<close> raises ValueError for a negative
  order.
\<close>

fun lms_loop :: "real \<Rightarrow> nat \<Rightarrow> real list \<Rightarrow> nat list \<Rightarrow> real list \<Rightarrow> real list" where
  "lms_loop mu M data [] w = []"
| "lms_loop mu M data (i # rest) w =
     (let x = rev (take M (drop (i - M) data));
          y = sum_list (map2 (*) w x);
          e = data ! i - y;
          w' = map2 (\<lambda>wk xk. wk + mu * e * xk) w x
      in y # lms_loop mu M data rest w')"

definition LMSAdaptiveFilter_filter_1d :: "real \<Rightarrow> int \<Rightarrow> real list \<Rightarrow> py_error + real list" where
  "LMSAdaptiveFilter_filter_1d mu filter_order data =
     (let n = length data; M = filter_order
      in if int n < M then Inr data
         else if M < 0 then Inl ValueError
         else Inr (take (nat M) data
                   @ lms_loop mu (nat M) data [nat M..<n] (replicate (nat M) 0)))"

text \<open>
  \<open>np.median\<close> of a non-empty list and
  \<open>stats.median_abs_deviation(x, scale='normal')\<close>, which divides the median absolute
  deviation by 0.6744897501960817.
\<close>

definition np_median :: "real list \<Rightarrow> real" where
  "np_median xs =
     (let s = sort xs; n = length s
      in if even n then (s ! (n div 2 - 1) + s ! (n div 2)) / 2 else s ! (n div 2))"

definition median_abs_deviation_normal :: "real list \<Rightarrow> real" where
  "median_abs_deviation_normal xs =
     np_median (map (\<lambda>x. \<bar>x - np_median xs\<bar>) xs) / 0.6744897501960817"

text \<open>
  \<open>HampelFilter\<close>, for a non-negative \<open>window_size\<close>. \<open>_apply_1d\<close> looks at the window
  \<open>sig[max(0, i - half_window) : min(n, i + half_window + 1)]\<close> around each sample;
  \<open>apply\<close> reshapes a one-dimensional input to one column and returns the
  two-dimensional result.
\<close>

record HampelFilter =
  window_size :: nat
  n_sigma :: real
  replace_with_median :: bool

definition HampelFilter_apply_1d :: "HampelFilter \<Rightarrow> real list \<Rightarrow> real list" where
  "HampelFilter_apply_1d self sig =
     (let n = length sig; half_window = window_size self div 2
      in map (\<lambda>i.
           (let start = i - half_window;
                end = min n (i + half_window + 1);
                window = take (end - start) (drop start sig);
                median = np_median window;
                mad = median_abs_deviation_normal window
            in if \<bar>sig ! i - median\<bar> > n_sigma self * mad \<and> replace_with_median self
               then median else sig ! i))
         [0..<n])"

definition HampelFilter_apply :: "HampelFilter \<Rightarrow> ndarray \<Rightarrow> ndarray" where
  "HampelFilter_apply self data =
     (case data of
        Arr1 xs \<Rightarrow> Arr2 (map (\<lambda>y. [y]) (HampelFilter_apply_1d self xs))
      | Arr2 rows \<Rightarrow> Arr2 (transpose (map (HampelFilter_apply_1d self) (transpose rows))))"

text \<open>
  \<open>MedianFilter.apply\<close>. \<open>medfilt\<close> is \<open>signal.medfilt(data, kernel_size)\<close> on a
  one-dimensional array: the median over a window of odd size centred on each sample,
  the array zero-padded at both ends (ValueError for an even size);
  \<open>median_filter\<close> stands for \<open>ndimage.median_filter(data, size=(kernel_size, 1))\<close>.
\<close>

definition medfilt :: "real list \<Rightarrow> nat \<Rightarrow> py_error + real list" where
  "medfilt xs kernel_size =
     (if even kernel_size then Inl ValueError
      else Inr (map (\<lambda>i. np_median (map (\<lambda>j. if kernel_size div 2 \<le> i + j
                                                 \<and> i + j - kernel_size div 2 < length xs
                                              then xs ! (i + j - kernel_size div 2) else 0)
                                        [0..<kernel_size]))
                  [0..<length xs]))"

definition MedianFilter_apply ::
  "(ndarray \<Rightarrow> nat \<Rightarrow> py_error + ndarray) \<Rightarrow> nat \<Rightarrow> ndarray \<Rightarrow> py_error + ndarray" where
  "MedianFilter_apply median_filter kernel_size data =
     (case data of
        Arr1 xs \<Rightarrow> ebind (medfilt xs kernel_size) (\<lambda>ys. Inr (Arr1 ys))
      | Arr2 rows \<Rightarrow> median_filter data kernel_size)"

section \<open>Verified properties: clinical scoring\<close>

lemma gps_le_100: "get_percentile_score r v \<le> 100"
proof (cases v)
  case (Val x)
  show ?thesis
  proof (cases "higher_is_worse r")
    case True
    then show ?thesis using Val
      by (auto simp: Let_def field_simps)
  next
    case False
    then show ?thesis using Val
      by (auto simp: Let_def field_simps)
  qed
qed simp

lemma gps_ge_0: "0 \<le> get_percentile_score r v"
proof (cases v)
  case (Val x)
  show ?thesis
  proof (cases "higher_is_worse r")
    case True
    then show ?thesis using Val
      by (auto simp: Let_def field_simps)
  next
    case False
    then show ?thesis using Val
      by (auto simp: Let_def field_simps)
  qed
qed simp

lemma interp_antimono: "a \<le> b \<Longrightarrow> 100 * (1 - b) \<le> 100 * (1 - (a::real))"
  by simp

lemma gps_mono:
  assumes hw: "higher_is_worse r" and wf: "normal_max r < severe_threshold r" and x: "x \<le> y"
  shows "get_percentile_score r (Val y) \<le> get_percentile_score r (Val x)"
proof -
  consider (lo) "x \<le> normal_max r" | (hi) "severe_threshold r \<le> y"
    | (mid) "normal_max r < x" "y < severe_threshold r"
    by linarith
  then show ?thesis
  proof cases
    case lo
    then have "get_percentile_score r (Val x) = 100" using hw by simp
    then show ?thesis using gps_le_100 [of r "Val y"] by simp
  next
    case hi
    then have "get_percentile_score r (Val y) = 0" using hw wf by simp
    then show ?thesis using gps_ge_0 [of r "Val x"] by simp
  next
    case mid
    let ?span = "severe_threshold r - normal_max r"
    have span: "0 < ?span" using mid x by linarith
    have "(x - normal_max r) / ?span \<le> (y - normal_max r) / ?span"
      using x span by (simp add: divide_right_mono)
    then have "100 * (1 - (y - normal_max r) / ?span) \<le> 100 * (1 - (x - normal_max r) / ?span)"
      by (rule interp_antimono)
    moreover have "get_percentile_score r (Val x) = 100 * (1 - (x - normal_max r) / ?span)"
      using hw mid x by (simp add: Let_def)
    moreover have "get_percentile_score r (Val y) = 100 * (1 - (y - normal_max r) / ?span)"
      using hw mid x by (simp add: Let_def)
    ultimately show ?thesis by (simp only:)
  qed
qed

text \<open>
  C3. \<open>classify_severity\<close> maps a numeric composite score \<open>s\<close> to Normal iff
  \<open>s \<ge> 85\<close>, Mild iff \<open>65 \<le> s < 85\<close>, Moderate iff \<open>40 \<le> s < 65\<close> and Severe
  iff \<open>s < 40\<close>; 85 is Normal, 84.999 Mild, 65 Mild and 64.999 Moderate.
\<close>

theorem classify_severity_buckets:
  "(classify_severity (Val s) = NORMAL) = (85 \<le> s)
   \<and> (classify_severity (Val s) = MILD) = (65 \<le> s \<and> s < 85)
   \<and> (classify_severity (Val s) = MODERATE) = (40 \<le> s \<and> s < 65)
   \<and> (classify_severity (Val s) = SEVERE) = (s < 40)
   \<and> classify_severity (Val 85) = NORMAL
   \<and> classify_severity (Val 84.999) = MILD
   \<and> classify_severity (Val 65) = MILD
   \<and> classify_severity (Val 64.999) = MODERATE"
  by (auto simp: classify_severity_def fge_def)

text \<open>
  C8. For a range with \<open>higher_is_worse\<close> and \<open>normal_max < severe_threshold\<close>,
  \<open>get_percentile_score\<close> is non-increasing in the value, lies in [0, 100] (for NaN
  too), is exactly 100 at or below \<open>normal_max\<close> and exactly 0 at or above
  \<open>severe_threshold\<close>.
\<close>

theorem percentile_score_monotone:
  assumes "higher_is_worse r" and "normal_max r < severe_threshold r"
  shows "(x \<le> y \<longrightarrow> get_percentile_score r (Val y) \<le> get_percentile_score r (Val x))
         \<and> 0 \<le> get_percentile_score r v \<and> get_percentile_score r v \<le> 100
         \<and> (x \<le> normal_max r \<longrightarrow> get_percentile_score r (Val x) = 100)
         \<and> (severe_threshold r \<le> x \<longrightarrow> get_percentile_score r (Val x) = 0)"
  using assms gps_mono [of r x y] gps_ge_0 [of r v] gps_le_100 [of r v] by auto

theorem percentile_score_monotone_witness:
  "get_percentile_score (mk_range 0.0 3.0 5.0 7.0 10.0 ''Hz'' True) (Val 8)
     \<le> get_percentile_score (mk_range 0.0 3.0 5.0 7.0 10.0 ''Hz'' True) (Val 4)
   \<and> 0 \<le> get_percentile_score (mk_range 0.0 3.0 5.0 7.0 10.0 ''Hz'' True) (Val 6)
   \<and> get_percentile_score (mk_range 0.0 3.0 5.0 7.0 10.0 ''Hz'' True) (Val 6) \<le> 100
   \<and> get_percentile_score (mk_range 0.0 3.0 5.0 7.0 10.0 ''Hz'' True) (Val 3) = 100
   \<and> get_percentile_score (mk_range 0.0 3.0 5.0 7.0 10.0 ''Hz'' True) (Val 10) = 0"
proof -
  let ?r = "mk_range 0.0 3.0 5.0 7.0 10.0 ''Hz'' True"
  have hw: "higher_is_worse ?r" by (simp add: mk_range_def)
  have wf: "normal_max ?r < severe_threshold ?r" by (simp add: mk_range_def)
  have a: "get_percentile_score ?r (Val 8) \<le> get_percentile_score ?r (Val 4)"
    using percentile_score_monotone [OF hw wf, of 4 8 "Val 6"] by simp
  have b: "0 \<le> get_percentile_score ?r (Val 6) \<and> get_percentile_score ?r (Val 6) \<le> 100"
    using percentile_score_monotone [OF hw wf, of 4 8 "Val 6"] by simp
  have c: "get_percentile_score ?r (Val 3) = 100"
    using percentile_score_monotone [OF hw wf, of 3 3 "Val 6"] by (simp add: mk_range_def)
  have d: "get_percentile_score ?r (Val 10) = 0"
    using percentile_score_monotone [OF hw wf, of 10 10 "Val 6"] by (simp add: mk_range_def)
  show ?thesis using a b c d by simp
qed

lemma domain_loop_eq:
  "domain_loop sbs (ws, ss) =
     (ws @ map (\<lambda>sb. 1 + real_of_int (3 - severity_value (severity sb)) * 0.5) sbs,
      ss @ map percentile_score sbs)"
  by (induction sbs arbitrary: ws ss) (auto simp: Let_def)

lemma map2_mult_map: "map2 (*) (map f xs) (map g xs) = map (\<lambda>x. f x * (g x :: real)) xs"
  by (induction xs) auto

lemma severity_weight_ge_1: "1 \<le> 1 + real_of_int (3 - severity_value s) * 0.5"
  by (cases s) auto

lemma sum_list_pos_ge1:
  fixes f :: "'a \<Rightarrow> real"
  assumes "\<And>x. 1 \<le> f x" and "xs \<noteq> []"
  shows "0 < sum_list (map f xs)"
  using assms(2)
proof (induction xs)
  case Nil
  then show ?case by simp
next
  case (Cons x xs)
  have "0 \<le> sum_list (map f xs)"
    by (rule sum_list_nonneg) (use assms(1) in \<open>auto intro: order_trans [of 0 1]\<close>)
  moreover have "1 \<le> f x" by (rule assms(1))
  ultimately show ?case by simp
qed

lemma sum_weights_pos:
  "sbs \<noteq> [] \<Longrightarrow> 0 < (\<Sum>sb\<leftarrow>sbs. 1 + real_of_int (3 - severity_value (severity sb)) * 0.5)"
  by (rule sum_list_pos_ge1) (rule severity_weight_ge_1)

text \<open>
  C2. In \<open>compute_domain_score\<close> the domain score is the average of the members'
  percentile scores weighted by \<open>1 + (3 - severity_rank) * 0.5\<close> (and 100 for a domain
  with no scored member); the weight is 2.5 for Normal, 2 for Mild, 1.5 for Moderate and
  1.0 for Severe. The weights never sum to zero, so \<open>np.average\<close> does not raise.
\<close>

theorem compute_domain_score_weights:
  "compute_domain_score scored domain_names =
     (let relevant = filter (\<lambda>sb. name sb \<in> set domain_names) scored
      in if relevant = [] then Inr 100
         else Inr ((\<Sum>sb\<leftarrow>relevant. percentile_score sb * (1 + real_of_int (3 - severity_value (severity sb)) * 0.5))
                   / (\<Sum>sb\<leftarrow>relevant. 1 + real_of_int (3 - severity_value (severity sb)) * 0.5)))
   \<and> 1 + real_of_int (3 - severity_value NORMAL) * 0.5 = (2.5::real)
   \<and> 1 + real_of_int (3 - severity_value MILD) * 0.5 = (2::real)
   \<and> 1 + real_of_int (3 - severity_value MODERATE) * 0.5 = (1.5::real)
   \<and> 1 + real_of_int (3 - severity_value SEVERE) * 0.5 = (1::real)"
proof -
  let ?rel = "filter (\<lambda>sb. name sb \<in> set domain_names) scored"
  have "compute_domain_score scored domain_names =
     (if ?rel = [] then Inr 100
      else Inr ((\<Sum>sb\<leftarrow>?rel. percentile_score sb * (1 + real_of_int (3 - severity_value (severity sb)) * 0.5))
                   / (\<Sum>sb\<leftarrow>?rel. 1 + real_of_int (3 - severity_value (severity sb)) * 0.5)))"
  proof (cases "?rel = []")
    case True
    then show ?thesis by (simp add: compute_domain_score_def)
  next
    case False
    then have "(\<Sum>sb\<leftarrow>?rel. 1 + real_of_int (3 - severity_value (severity sb)) * 0.5) \<noteq> 0"
      using sum_weights_pos [of ?rel] by simp
    then show ?thesis using False
      by (simp add: compute_domain_score_def domain_loop_eq np_average_def map2_mult_map Let_def)
  qed
  then show ?thesis by (simp add: Let_def)
qed

lemma score_biomarkers_names:
  "map name (score_biomarkers refs interp bs)
     = map fst (filter (\<lambda>(nm, v). v \<noteq> None \<and> v \<noteq> Some NaN) bs)"
proof (induction bs)
  case Nil
  then show ?case by simp
next
  case (Cons b bs)
  obtain nm v where b: "b = (nm, v)" by (cases b)
  show ?case
  proof (cases v)
    case None
    then show ?thesis using Cons b by simp
  next
    case (Some x)
    then show ?thesis using Cons b
      by (cases x) (auto simp: score_biomarker_def Let_def split: option.splits)
  qed
qed

lemma score_biomarkers_append:
  "score_biomarkers refs interp (xs @ ys)
     = score_biomarkers refs interp xs @ score_biomarkers refs interp ys"
proof (induction xs)
  case Nil
  then show ?case by simp
next
  case (Cons b xs)
  obtain nm v where b: "b = (nm, v)" by (cases b)
  show ?case using Cons b by (simp split: option.splits)
qed

text \<open>
  C10, as stated, fails: missing data can lower a domain score. With the default
  reference ranges, a tremor domain holding a normal \<open>tremor_frequency\<close> (2 Hz) and a
  severe \<open>tremor_amplitude\<close> (0.06) scores 500/7; when the frequency is NaN the entry is
  dropped by \<open>score_biomarkers\<close> and the domain scores 0.
\<close>

theorem missing_value_lowers_domain_score:
  "compute_domain_score
     (score_biomarkers CLINICAL_REFERENCE_RANGES (\<lambda>nm v sev ref. [])
        [(''tremor_frequency'', Some NaN), (''tremor_amplitude'', Some (Val 0.06))])
     DOMAINS_tremor = Inr 0
   \<and> compute_domain_score
     (score_biomarkers CLINICAL_REFERENCE_RANGES (\<lambda>nm v sev ref. [])
        [(''tremor_frequency'', Some (Val 2)), (''tremor_amplitude'', Some (Val 0.06))])
     DOMAINS_tremor = Inr (500 / 7)"
  by code_simp

text \<open>
  C10, amended. For a NaN value \<open>classify\<close> returns NORMAL and \<open>get_percentile_score\<close>
  returns 100, the largest score there is; \<open>score_biomarkers\<close> leaves NaN-valued and
  None-valued entries out of the scored list, so such an entry changes neither the scored
  list nor any domain score: both are what they would be without the entry.
\<close>

theorem nan_is_normal_and_omitted:
  "classify r NaN = NORMAL
   \<and> get_percentile_score r NaN = 100
   \<and> get_percentile_score r v \<le> 100
   \<and> map name (score_biomarkers refs interp bs)
        = map fst (filter (\<lambda>(nm, v). v \<noteq> None \<and> v \<noteq> Some NaN) bs)
   \<and> score_biomarkers refs interp (xs @ (nm, Some NaN) # ys) = score_biomarkers refs interp (xs @ ys)
   \<and> score_biomarkers refs interp (xs @ (nm, None) # ys) = score_biomarkers refs interp (xs @ ys)
   \<and> compute_domain_score (score_biomarkers refs interp (xs @ (nm, Some NaN) # ys)) d
        = compute_domain_score (score_biomarkers refs interp (xs @ ys)) d
   \<and> compute_domain_score (score_biomarkers refs interp (xs @ (nm, None) # ys)) d
        = compute_domain_score (score_biomarkers refs interp (xs @ ys)) d"
  using gps_le_100 [of r v] score_biomarkers_names [of refs interp bs]
  by (simp add: classify_def score_biomarkers_append)

section \<open>Verified properties: event extraction and hysteresis\<close>




























text \<open>
  C1. The stream A, A, None, A, A (every confidence 0.9, threshold 0.3) with
  \<open>merge_gap = 1\<close> and \<open>min_event_duration = 3\<close>: the loop closes the first event at
  the dropout, because \<open>i - current_start = 2\<close> exceeds the gap, and the result is the
  empty list. Without the duration filter the two events are frames 0 to 1 and 3 to 4.
\<close>

theorem merge_gap_stream_yields_no_event:
  "extract_events \<lparr>min_event_duration = 3, merge_gap = 1, confidence_threshold = 0.3\<rparr> ''STATE''
     [''Aperture'', ''Aperture'', ''None'', ''Aperture'', ''Aperture''] [0.9, 0.9, 0.9, 0.9, 0.9]
     (arange 5) = Inr []
   \<and> map_sum id (map (\<lambda>e. (start_frame e, end_frame e, duration_frames e)))
       (extract_events \<lparr>min_event_duration = 0, merge_gap = 1, confidence_threshold = 0.3\<rparr> ''STATE''
          [''Aperture'', ''Aperture'', ''None'', ''Aperture'', ''Aperture''] [0.9, 0.9, 0.9, 0.9, 0.9]
          (arange 5)) = Inr [(0, 1, 2), (3, 4, 2)]"
  by (simp add: extract_events_def arange_def upt_rec [of _ 5] extract_step_def ebind_def py_get_def
        close_event_def create_event_def Let_def)

lemma hysteresis_loop_length: "length (hysteresis_loop hi lo xs c) = length xs"
  by (induction xs arbitrary: c) (auto simp: Let_def)

lemma hysteresis_loop_nth:
  "i < length xs \<Longrightarrow>
     hysteresis_loop hi lo xs c ! i =
       (if (if i = 0 then c else hysteresis_loop hi lo xs c ! (i - 1))
        then \<not> xs ! i < lo else xs ! i > hi)"
proof (induction xs arbitrary: c i)
  case Nil
  then show ?case by simp
next
  case (Cons x xs)
  show ?case
  proof (cases i)
    case 0
    then show ?thesis by (auto simp: Let_def)
  next
    case (Suc k)
    then have k: "k < length xs" using Cons.prems by simp
    show ?thesis using Suc Cons.IH [OF k]
      by (cases k) (auto simp: Let_def)
  qed
qed

text \<open>
  C7. \<open>HysteresisThreshold.apply\<close> returns one state per sample; the state at sample
  \<open>i\<close> is ON exactly when the previous state (OFF before the first sample) was ON and
  the sample is not below the low threshold, or was OFF and the sample exceeds the high
  threshold. So OFF to ON happens only above the high threshold and ON to OFF only below
  the low one. For [0,0,8,9,2,1,9,0,0] with high 7 and low 3 the mask is
  [F,F,T,T,F,F,T,F,F].
\<close>

theorem hysteresis_fsm:
  assumes "HysteresisThreshold_apply quantile h sig = (st, (hi, lo))" and "i < length sig"
  shows "length st = length sig
         \<and> st ! i = (if (if i = 0 then False else st ! (i - 1))
                     then \<not> sig ! i < lo else sig ! i > hi)
         \<and> (\<not> (if i = 0 then False else st ! (i - 1)) \<and> st ! i \<longrightarrow> sig ! i > hi)
         \<and> ((if i = 0 then False else st ! (i - 1)) \<and> \<not> st ! i \<longrightarrow> sig ! i < lo)
         \<and> (\<forall>t. high_threshold h = Some t \<longrightarrow> hi = t)
         \<and> (\<forall>t. low_threshold h = Some t \<longrightarrow> lo = t)
         \<and> fst (HysteresisThreshold_apply quantile
                  \<lparr>high_threshold = Some 7, low_threshold = Some 3,
                   quantile_high = 0.7, quantile_low = 0.3\<rparr>
                  [0, 0, 8, 9, 2, 1, 9, 0, 0])
             = [False, False, True, True, False, False, True, False, False]"
proof -
  have st: "st = hysteresis_loop hi lo sig False"
    using assms(1) by (auto simp: HysteresisThreshold_apply_def Let_def)
  have nth: "st ! i = (if (if i = 0 then False else st ! (i - 1))
                     then \<not> sig ! i < lo else sig ! i > hi)"
    unfolding st by (rule hysteresis_loop_nth [OF assms(2)])
  have thr: "(\<forall>t. high_threshold h = Some t \<longrightarrow> hi = t) \<and> (\<forall>t. low_threshold h = Some t \<longrightarrow> lo = t)"
    using assms(1) by (auto simp: HysteresisThreshold_apply_def Let_def)
  have ex: "fst (HysteresisThreshold_apply quantile
                  \<lparr>high_threshold = Some 7, low_threshold = Some 3,
                   quantile_high = 0.7, quantile_low = 0.3\<rparr>
                  [0, 0, 8, 9, 2, 1, 9, 0, 0])
             = [False, False, True, True, False, False, True, False, False]"
    by (simp add: HysteresisThreshold_apply_def)
  have len: "length st = length sig" by (simp add: st hysteresis_loop_length)
  show ?thesis
    apply (intro conjI)
          apply (rule len)
         apply (rule nth)
    using nth apply (simp split: if_splits)
    using nth apply (simp split: if_splits)
    using thr apply blast
    using thr apply blast
    apply (rule ex)
    done
qed

theorem hysteresis_fsm_witness:
  "HysteresisThreshold_apply (\<lambda>xs q. 0)
      \<lparr>high_threshold = Some 7, low_threshold = Some 3, quantile_high = 0.7, quantile_low = 0.3\<rparr>
      [0, 0, 8, 9, 2, 1, 9, 0, 0]
     = ([False, False, True, True, False, False, True, False, False], (7, 3))
   \<and> (2::nat) < length [0, 0, 8, 9, 2, 1, 9, 0, 0 :: real]
   \<and> [0, 0, 8, 9, 2, 1, 9, 0, 0 :: real] ! 2 > 7
   \<and> (4::nat) < length [0, 0, 8, 9, 2, 1, 9, 0, 0 :: real]
   \<and> [0, 0, 8, 9, 2, 1, 9, 0, 0 :: real] ! 4 < 3"
proof -
  let ?h = "\<lparr>high_threshold = Some 7, low_threshold = Some 3, quantile_high = 0.7, quantile_low = 0.3\<rparr>"
  let ?sig = "[0, 0, 8, 9, 2, 1, 9, 0, 0 :: real]"
  let ?st = "[False, False, True, True, False, False, True, False, False]"
  have run: "HysteresisThreshold_apply (\<lambda>xs q. 0) ?h ?sig = (?st, (7, 3))"
    by (simp add: HysteresisThreshold_apply_def)
  have i2: "(2::nat) < length ?sig" and i4: "(4::nat) < length ?sig" by simp_all
  have up: "?sig ! 2 > 7"
    using hysteresis_fsm [OF run i2] by simp
  have down: "?sig ! 4 < 3"
    using hysteresis_fsm [OF run i4] by simp
  show ?thesis using run i2 i4 up down by blast
qed

section \<open>Verified properties: biomarker calculator\<close>








text \<open>
  C5, amended. Each scalar metric with a minimum sample count returns NaN, and raises
  nothing, on an input below that count: four samples for SPARC, LDLJ-V, LDLJ-A and
  normalised jerk; three for amplitude decrement, velocity reduction and performance
  degradation; two for the hesitation index; ten for coordination lag, phase coherence,
  Q-factor and amplitude variability; two windows for consistency decline and tremor
  stability and three for frequency drift. \<open>detect_movement_blocks\<close> returns
  \<open>(0, [])\<close> below two samples.
\<close>

theorem short_input_returns_nan:
  "(alen v4 < 4 \<longrightarrow> compute_sparc self v4 freq_cutoff amplitude_threshold = NaN)
   \<and> (alen v4 < 4 \<longrightarrow> compute_ldljv self v4 movement_duration path_length = Inr NaN)
   \<and> (alen v4 < 4 \<longrightarrow> compute_ldlja self v4 movement_duration amplitude = Inr NaN)
   \<and> (alen v4 < 4 \<longrightarrow> compute_normalized_jerk self v4 = Inr NaN)
   \<and> (length xs < 3 \<longrightarrow> compute_amplitude_decrement xs early_fraction late_fraction = NaN)
   \<and> (length xs < 3 \<longrightarrow> compute_velocity_reduction xs early_fraction late_fraction = NaN)
   \<and> (alen v2 < 2 \<longrightarrow> compute_hesitation_index self v2 threshold_fraction = NaN)
   \<and> (length xs < 3 \<longrightarrow> compute_performance_degradation polyfit xs timestamps = Inr NaN)
   \<and> (length xs < w * 2 \<longrightarrow>
         compute_consistency_decline polyfit xs w = Inr NaN)
   \<and> (length left < 10 \<or> length right < 10 \<longrightarrow>
         compute_coordination_lag correlate self left right max_lag_samples = NaN)
   \<and> (length left < 10 \<or> length right < 10 \<longrightarrow>
         compute_phase_coherence coherence self left right freq_band = Inr NaN)
   \<and> (length xs < 10 \<longrightarrow> compute_q_factor welch self xs freq_band = Inr NaN)
   \<and> (int (length xs) < py_int (window_duration * fs self) * 2 \<longrightarrow>
         compute_tremor_stability welch self xs window_duration freq_band = Inr NaN)
   \<and> (length xs < 10 \<longrightarrow>
         compute_amplitude_variability band_filtfilt hilbert_abs self xs freq_band = NaN)
   \<and> (int (length xs) < py_int (window_duration * fs self) * 3 \<longrightarrow>
         compute_frequency_drift welch polyfit self xs window_duration freq_band = Inr NaN)
   \<and> (alen v2 < 2 \<longrightarrow> detect_movement_blocks self v2 min_pause_duration = (0, []))"
  by (simp add: detect_movement_blocks_def compute_sparc_def compute_ldljv_def compute_ldlja_def compute_normalized_jerk_def
        compute_amplitude_decrement_def compute_velocity_reduction_def late_early_ratio_def
        compute_hesitation_index_def compute_performance_degradation_def
        compute_consistency_decline_def compute_coordination_lag_def compute_phase_coherence_def
        compute_q_factor_def compute_tremor_stability_def compute_amplitude_variability_def
        compute_frequency_drift_def Let_def)

theorem short_input_returns_nan_witness:
  "compute_sparc \<lparr>fs = 30, movement_threshold = 0.01, min_movement_duration = 0.1\<rparr>
     (Arr1 [1, 2, 3]) 10 0.05 = NaN
   \<and> compute_ldljv \<lparr>fs = 30, movement_threshold = 0.01, min_movement_duration = 0.1\<rparr>
       (Arr1 [1, 2, 3]) None None = Inr NaN
   \<and> compute_ldlja \<lparr>fs = 30, movement_threshold = 0.01, min_movement_duration = 0.1\<rparr>
       (Arr1 [1, 2, 3]) None None = Inr NaN
   \<and> compute_normalized_jerk \<lparr>fs = 30, movement_threshold = 0.01, min_movement_duration = 0.1\<rparr>
       (Arr1 [1, 2, 3]) = Inr NaN
   \<and> compute_amplitude_decrement [1, 2] 0.33 0.33 = NaN
   \<and> compute_velocity_reduction [1, 2] 0.33 0.33 = NaN
   \<and> compute_hesitation_index \<lparr>fs = 30, movement_threshold = 0.01, min_movement_duration = 0.1\<rparr>
       (Arr2 [[1, 2, 2]]) 0.1 = NaN
   \<and> compute_performance_degradation (\<lambda>x y. Inl ValueError) [1, 2] None = Inr NaN
   \<and> compute_consistency_decline (\<lambda>x y. Inl ValueError) [1, 2] 5 = Inr NaN
   \<and> compute_coordination_lag (\<lambda>a b. [])
       \<lparr>fs = 30, movement_threshold = 0.01, min_movement_duration = 0.1\<rparr> [1, 2] [1, 2] None = NaN
   \<and> compute_phase_coherence (\<lambda>a b f k. Inl ValueError)
       \<lparr>fs = 30, movement_threshold = 0.01, min_movement_duration = 0.1\<rparr> [1, 2] [1, 2] (3, 12)
       = Inr NaN
   \<and> compute_q_factor (\<lambda>x f k. Inl ValueError)
       \<lparr>fs = 30, movement_threshold = 0.01, min_movement_duration = 0.1\<rparr> [1, 2] (3, 12) = Inr NaN
   \<and> compute_tremor_stability (\<lambda>x f k. Inl ValueError)
       \<lparr>fs = 30, movement_threshold = 0.01, min_movement_duration = 0.1\<rparr> [1, 2] 1 (3, 12) = Inr NaN
   \<and> compute_amplitude_variability (\<lambda>lo hi x. Inl ValueError) (\<lambda>x. x)
       \<lparr>fs = 30, movement_threshold = 0.01, min_movement_duration = 0.1\<rparr> [1, 2] (3, 12) = NaN
   \<and> compute_frequency_drift (\<lambda>x f k. Inl ValueError) (\<lambda>x y. Inl ValueError)
       \<lparr>fs = 30, movement_threshold = 0.01, min_movement_duration = 0.1\<rparr> [1, 2] 1 (3, 12) = Inr NaN
   \<and> detect_movement_blocks \<lparr>fs = 30, movement_threshold = 0.01, min_movement_duration = 0.1\<rparr>
       (Arr2 [[1, 2, 2]]) 0.1 = (0, [])"
proof -
  let ?c = "\<lparr>fs = 30, movement_threshold = 0.01, min_movement_duration = 0.1\<rparr>"
  have h4: "alen (Arr1 [1, 2, 3]) < 4" by simp
  have h2: "alen (Arr2 [[1, 2, 2]]) < 2" by simp
  have h3: "length [1, 2 :: real] < 3" by simp
  have h10: "length [1, 2 :: real] < 10" by simp
  have hw: "length [1, 2 :: real] < 5 * 2" by simp
  have ht2: "int (length [1, 2 :: real]) < py_int (1 * fs ?c) * 2" by (simp add: py_int_def)
  have ht3: "int (length [1, 2 :: real]) < py_int (1 * fs ?c) * 3" by (simp add: py_int_def)
  show ?thesis
    using short_input_returns_nan [where ?v4.0 = "Arr1 [1, 2, 3]" and self = ?c
        and freq_cutoff = 10 and amplitude_threshold = "0.05" and movement_duration = None
        and path_length = None and amplitude = None and xs = "[1, 2]"
        and early_fraction = "0.33" and late_fraction = "0.33" and ?v2.0 = "Arr2 [[1, 2, 2]]"
        and threshold_fraction = "0.1" and polyfit = "\<lambda>x y. Inl ValueError"
        and timestamps = None and w = 5 and left = "[1, 2]" and right = "[1, 2]"
        and correlate = "\<lambda>a b. []" and max_lag_samples = None
        and coherence = "\<lambda>a b f k. Inl ValueError" and freq_band = "(3, 12)"
        and welch = "\<lambda>x f k. Inl ValueError" and window_duration = 1
        and band_filtfilt = "\<lambda>lo hi x. Inl ValueError" and hilbert_abs = "\<lambda>x. x"
        and min_pause_duration = "0.1"]
      h4 h2 h3 h10 hw ht2 ht3
    by simp
qed

text \<open>
  C5, as stated, fails for \<open>detect_movement_blocks\<close>: below its minimum of two samples
  it returns the pair \<open>(0, [])\<close>, a count of zero blocks, not NaN.
\<close>

theorem movement_blocks_short_is_not_nan:
  "detect_movement_blocks \<lparr>fs = 30, movement_threshold = 0.01, min_movement_duration = 0.1\<rparr>
     (Arr1 [0.5]) 0.1 = (0, [])"
  by (simp add: detect_movement_blocks_def)

section \<open>Verified properties: filters\<close>

text \<open>
  C6, as stated, fails for windowed filters that have no length guard. A Hampel filter
  with a window of 7 replaces the last of the five samples 0, 0, 0, 0, 10 by 0 (and
  returns a column), and a median filter with a kernel of 5 turns 1, 2, 3 into 1, 1, 1.
\<close>

theorem unguarded_window_filters_change_short_input:
  "HampelFilter_apply \<lparr>window_size = 7, n_sigma = 3, replace_with_median = True\<rparr>
     (Arr1 [0, 0, 0, 0, 10]) = Arr2 [[0], [0], [0], [0], [0]]
   \<and> MedianFilter_apply (\<lambda>d k. Inr d) 5 (Arr1 [1, 2, 3]) = Inr (Arr1 [1, 1, 1])"
  by (simp add: HampelFilter_apply_def HampelFilter_apply_1d_def MedianFilter_apply_def
        medfilt_def ebind_def np_median_def median_abs_deviation_normal_def Let_def
        upt_rec [of _ 5] upt_rec [of _ 4] upt_rec [of _ 3] upt_rec [of _ 2] upt_rec [of _ 1])

text \<open>
  C6, amended. The filters whose \<open>apply\<close> starts with a length guard return their input
  unchanged, without calling the filter routine, on a signal shorter than the guard's
  bound: Butterworth, Chebyshev, Bessel, Elliptic and Bandpass below
  \<open>3 * max(len(a), len(b))\<close> samples, MovingAverage below \<open>window\<close>, Savitzky-Golay
  below \<open>window_length\<close>, and the one-dimensional LMS filter below \<open>filter_order\<close>.
\<close>

theorem guarded_filters_return_short_input:
  "(alen data < 3 * max (length (coef_a c)) (length (coef_b c)) \<longrightarrow>
       ButterworthFilter_apply filtfilt c data = Inr data
       \<and> ChebyshevFilter_apply filtfilt c data = Inr data
       \<and> BesselFilter_apply filtfilt c data = Inr data
       \<and> EllipticFilter_apply filtfilt c data = Inr data
       \<and> BandpassFilter_apply filtfilt c data = Inr data)
   \<and> (int (alen data) < window \<longrightarrow> MovingAverageFilter_apply convolve1d window data = Inr data)
   \<and> (int (alen data) < window_length \<longrightarrow>
         SavitzkyGolayFilter_apply savgol_filter window_length polyorder data = Inr data)
   \<and> (int (length xs) < filter_order \<longrightarrow>
         LMSAdaptiveFilter_filter_1d mu filter_order xs = Inr xs)"
  by (simp add: ButterworthFilter_apply_def ChebyshevFilter_apply_def BesselFilter_apply_def
        EllipticFilter_apply_def BandpassFilter_apply_def MovingAverageFilter_apply_def
        SavitzkyGolayFilter_apply_def LMSAdaptiveFilter_filter_1d_def Let_def)

theorem guarded_filters_return_short_input_witness:
  "ButterworthFilter_apply (\<lambda>b a d. Inl ValueError)
      \<lparr>coef_b = [1, 2, 3, 4, 5], coef_a = [1, 2, 3, 4, 5]\<rparr> (Arr1 [1, 2, 3, 4]) = Inr (Arr1 [1, 2, 3, 4])
   \<and> ChebyshevFilter_apply (\<lambda>b a d. Inl ValueError)
      \<lparr>coef_b = [1, 2, 3, 4, 5], coef_a = [1, 2, 3, 4, 5]\<rparr> (Arr1 [1, 2, 3, 4]) = Inr (Arr1 [1, 2, 3, 4])
   \<and> BesselFilter_apply (\<lambda>b a d. Inl ValueError)
      \<lparr>coef_b = [1, 2, 3, 4, 5], coef_a = [1, 2, 3, 4, 5]\<rparr> (Arr1 [1, 2, 3, 4]) = Inr (Arr1 [1, 2, 3, 4])
   \<and> EllipticFilter_apply (\<lambda>b a d. Inl ValueError)
      \<lparr>coef_b = [1, 2, 3, 4, 5], coef_a = [1, 2, 3, 4, 5]\<rparr> (Arr1 [1, 2, 3, 4]) = Inr (Arr1 [1, 2, 3, 4])
   \<and> BandpassFilter_apply (\<lambda>b a d. Inl ValueError)
      \<lparr>coef_b = [1, 2, 3, 4, 5], coef_a = [1, 2, 3, 4, 5]\<rparr> (Arr1 [1, 2, 3, 4]) = Inr (Arr1 [1, 2, 3, 4])
   \<and> MovingAverageFilter_apply (\<lambda>d k. Inl ValueError) 5 (Arr1 [1, 2, 3, 4]) = Inr (Arr1 [1, 2, 3, 4])
   \<and> SavitzkyGolayFilter_apply (\<lambda>d w p. Inl ValueError) 11 3 (Arr1 [1, 2, 3, 4])
       = Inr (Arr1 [1, 2, 3, 4])
   \<and> LMSAdaptiveFilter_filter_1d 0.01 16 [1, 2, 3, 4] = Inr [1, 2, 3, 4]"
proof -
  let ?c = "\<lparr>coef_b = [1, 2, 3, 4, 5 :: real], coef_a = [1, 2, 3, 4, 5 :: real]\<rparr>"
  let ?d = "Arr1 [1, 2, 3, 4]"
  have h1: "alen ?d < 3 * max (length (coef_a ?c)) (length (coef_b ?c))" by simp
  have h2: "int (alen ?d) < 5" by simp
  have h3: "int (alen ?d) < 11" by simp
  have h4: "int (length [1, 2, 3, 4 :: real]) < 16" by simp
  show ?thesis
    using guarded_filters_return_short_input [where data = ?d and c = ?c
        and filtfilt = "\<lambda>b a d. Inl ValueError" and window = 5
        and convolve1d = "\<lambda>d k. Inl ValueError" and window_length = 11 and polyorder = 3
        and savgol_filter = "\<lambda>d w p. Inl ValueError" and xs = "[1, 2, 3, 4]"
        and filter_order = 16 and mu = "0.01"]
      h1 h2 h3 h4
    by simp
qed

end
